theory Spec2Isabelle
  imports Complex_Main
begin

section \<open>Routing composables of the bridge: the embedding\<close>

text \<open>
  The module \<^verbatim>\<open>packages/bridge/src/runtime/composables/router.ts\<close> is glue between two
  generations of a routing API. Its functions read and write a few fields of an
  application object owned by the host, and call into collaborators (the router, the
  window, the HTTP redirect helper, the legacy context's callbacks). The embedding keeps
  the fields in a record, returns thrown exceptions as the left summand of a sum, and
  records every call into a collaborator in a trace, in call order. An awaited call is
  run to completion at the point of the \<^verbatim>\<open>await\<close>.
\<close>

subsection \<open>Values\<close>

type_synonym route = string
  \<comment> \<open>a \<^verbatim>\<open>Route\<close> object of the router, named by its full path\<close>

type_synonym router = nat
  \<comment> \<open>a router instance, by reference\<close>

type_synonym h3_event = nat
  \<comment> \<open>the request event of a server-side render, by reference\<close>

type_synonym reactive_ref = nat
  \<comment> \<open>an object made by \<^verbatim>\<open>reactive(...)\<close>: its index in the store of such objects\<close>

text \<open>A \<^verbatim>\<open>Location\<close> or \<^verbatim>\<open>Route\<close> object as \<^verbatim>\<open>navigateTo\<close> reads it: \<^verbatim>\<open>path\<close>,
  \<^verbatim>\<open>query\<close> and \<^verbatim>\<open>hash\<close>, each possibly absent.\<close>

record location =
  loc_path :: "string option"
  loc_query :: "(string \<times> string) list option"
  loc_hash :: "string option"

text \<open>\<^verbatim>\<open>RawLocation\<close>: a string or a location object.\<close>

datatype raw_location = LocString string | LocObject location

text \<open>The error made by \<^verbatim>\<open>createError\<close>; \<^verbatim>\<open>abortNavigation\<close> reads its \<^verbatim>\<open>fatal\<close> mark.\<close>

record nuxt_error =
  err_message :: string
  err_fatal :: bool

text \<open>What \<^verbatim>\<open>abortNavigation\<close> accepts: \<^verbatim>\<open>string | Partial<NuxtError>\<close>.\<close>

record partial_error =
  part_message :: "string option"
  part_fatal :: "bool option"

datatype error_input = ErrString string | ErrObject partial_error

text \<open>Thrown values: a plain \<^verbatim>\<open>Error\<close> with its message, a created Nuxt error, or the
  \<^verbatim>\<open>TypeError\<close> of calling something that is not a function.\<close>

datatype exn = Error string | NuxtError nuxt_error | TypeError string

text \<open>\<^verbatim>\<open>RouteMiddlewareReturn = void | Error | string | Location | boolean | Route\<close>, and
  \<^verbatim>\<open>null\<close>.\<close>

datatype middleware_return =
    RetUndefined
  | RetNull
  | RetBool bool
  | RetString string
  | RetLocation location
  | RetError exn

text \<open>\<^verbatim>\<open>result instanceof Error\<close>.\<close>

fun instanceof_Error :: "middleware_return \<Rightarrow> bool" where
  "instanceof_Error (RetError _) = True"
| "instanceof_Error _ = False"

text \<open>JavaScript truthiness of such a value: \<^verbatim>\<open>undefined\<close>, \<^verbatim>\<open>null\<close>, \<^verbatim>\<open>false\<close> and the
  empty string are falsy, every object is truthy.\<close>

fun truthy :: "middleware_return \<Rightarrow> bool" where
  "truthy RetUndefined = False"
| "truthy RetNull = False"
| "truthy (RetBool b) = b"
| "truthy (RetString s) = (s \<noteq> [])"
| "truthy (RetLocation _) = True"
| "truthy (RetError _) = True"

text \<open>A JavaScript number: a double is a real number, \<^verbatim>\<open>NaN\<close> or an infinity. How the
  language prints one (\<^verbatim>\<open>400\<close>, \<^verbatim>\<open>0.5\<close>, \<^verbatim>\<open>1e+21\<close>) is left to the environment below.\<close>

datatype js_number = NumberValue real | NotANumber | PlusInfinity | MinusInfinity

text \<open>\<^verbatim>\<open>x || d\<close> on an optional string: the default replaces an absent or empty one.\<close>

fun or_default :: "string option \<Rightarrow> string \<Rightarrow> string" where
  "or_default None d = d"
| "or_default (Some s) d = (if s = [] then d else s)"

text \<open>An optional boolean read as a condition (\<^verbatim>\<open>options?.external\<close>, \<^verbatim>\<open>options.global\<close>,
  the processing flag).\<close>

fun flag_set :: "bool option \<Rightarrow> bool" where
  "flag_set (Some b) = b"
| "flag_set None = False"

subsection \<open>Calls into collaborators\<close>

datatype effect =
    WindowOpen string string string
      \<comment> \<open>\<^verbatim>\<open>open(toPath, target, features)\<close>\<close>
  | CallHook string
      \<comment> \<open>\<^verbatim>\<open>nuxtApp.callHook(name)\<close>\<close>
  | HookHandler string
      \<comment> \<open>a handler that the application registered for the hook has run\<close>
  | SendRedirect "h3_event option" string int
      \<comment> \<open>\<^verbatim>\<open>sendRedirect(event, location, code)\<close>, the event as \<^verbatim>\<open>ssrContext.event\<close> holds it\<close>
  | LocationReplace string
      \<comment> \<open>\<^verbatim>\<open>location.replace(toPath)\<close>\<close>
  | LocationHref string
      \<comment> \<open>\<^verbatim>\<open>location.href = toPath\<close>\<close>
  | RouterPush router raw_location
  | RouterReplace router raw_location
  | RouterAfterEach router reactive_ref
      \<comment> \<open>\<^verbatim>\<open>router.afterEach(route => Object.assign(nuxtApp._route, route))\<close>\<close>
  | ShowError nuxt_error
  | CtxError middleware_return
      \<comment> \<open>\<^verbatim>\<open>ctx.error(result)\<close>\<close>
  | CtxRedirect middleware_return
      \<comment> \<open>\<^verbatim>\<open>ctx.redirect(result)\<close>\<close>

subsection \<open>The application object and the state around it\<close>

record component_instance =
  vue_router :: router
  vue_route :: route

record ssr_context =
  ssr_event :: "h3_event option"

text \<open>The fields of the application object the module touches: \<^verbatim>\<open>_processingMiddleware\<close>
  (absent, or a boolean), \<^verbatim>\<open>_route\<close>, \<^verbatim>\<open>ssrContext\<close>, and the legacy context's router
  and current route (\<^verbatim>\<open>nuxt2Context.app.router\<close>, \<^verbatim>\<open>nuxt2Context.app.context.route\<close>).\<close>

record nuxt_app =
  processingMiddleware :: "bool option"
  mirrored_route :: "reactive_ref option"
  ssrContext :: "ssr_context option"
  nuxt2_router :: router
  nuxt2_route :: route

text \<open>The state: the application object; whether \<^verbatim>\<open>useNuxtApp()\<close> finds it; the active
  component instance that \<^verbatim>\<open>getCurrentInstance()\<close> returns, if any; the objects made by
  \<^verbatim>\<open>reactive\<close>; and the trace of calls into collaborators.\<close>

record world =
  nuxtApp :: nuxt_app
  nuxt_available :: bool
  current_instance :: "component_instance option"
  reactive_store :: "route list"
  effects :: "effect list"

definition log :: "effect \<Rightarrow> world \<Rightarrow> world" where
  "log e w = w\<lparr>effects := effects w @ [e]\<rparr>"

definition set_processing :: "bool option \<Rightarrow> world \<Rightarrow> world" where
  "set_processing v w = w\<lparr>nuxtApp := (nuxtApp w)\<lparr>processingMiddleware := v\<rparr>\<rparr>"

text \<open>Modelled from the spec: \<^verbatim>\<open>useNuxtApp\<close> is imported from \<^verbatim>\<open>../nuxt\<close>, which is not
  among the sources. The spec speaks of an externally-owned application instance; the
  \<^verbatim>\<open>try/catch\<close> in \<^verbatim>\<open>isProcessingMiddleware\<close> shows that the call throws when the
  instance cannot be found.\<close>

definition useNuxtApp :: "world \<Rightarrow> exn + nuxt_app" where
  "useNuxtApp w =
     (if nuxt_available w then Inr (nuxtApp w)
      else Inl (Error ''nuxt app instance unavailable''))"

text \<open>Modelled from the spec: \<^verbatim>\<open>callWithNuxt\<close> is imported from \<^verbatim>\<open>../nuxt\<close>, which is not
  among the sources. The spec has the adapter await the adapted middleware function; the
  model makes the given application the one \<^verbatim>\<open>useNuxtApp\<close> finds and runs the function.\<close>

definition callWithNuxt :: "(world \<Rightarrow> 'r \<times> world) \<Rightarrow> world \<Rightarrow> 'r \<times> world" where
  "callWithNuxt f w = f (w\<lparr>nuxt_available := True\<rparr>)"

subsection \<open>Resolving the router and the route\<close>

text \<open>\<^verbatim>\<open>useRouter\<close>: the router of the composables API inside a component, the legacy
  context's router otherwise.\<close>

definition useRouter :: "world \<Rightarrow> exn + router" where
  "useRouter w =
     (case current_instance w of
        Some vm \<Rightarrow> Inr (vue_router vm)
      | None \<Rightarrow>
          (case useNuxtApp w of
             Inl e \<Rightarrow> Inl e
           | Inr app \<Rightarrow> Inr (nuxt2_router app)))"

text \<open>What \<^verbatim>\<open>useRoute\<close> returns: the route of the composables API, or the reactive
  object stored in \<^verbatim>\<open>nuxtApp._route\<close>.\<close>

datatype route_handle = ComposableRoute route | MirroredRoute reactive_ref

text \<open>\<^verbatim>\<open>useRoute\<close>. Outside a component, a first access (no \<^verbatim>\<open>_route\<close> yet) makes the
  legacy route reactive, stores the new object in \<^verbatim>\<open>_route\<close> and registers the
  \<^verbatim>\<open>afterEach\<close> hook that keeps it up to date.\<close>

definition useRoute :: "world \<Rightarrow> (exn + route_handle) \<times> world" where
  "useRoute w =
     (case current_instance w of
        Some vm \<Rightarrow> (Inr (ComposableRoute (vue_route vm)), w)
      | None \<Rightarrow>
          (case useNuxtApp w of
             Inl e \<Rightarrow> (Inl e, w)
           | Inr app \<Rightarrow>
               (case mirrored_route app of
                  Some r \<Rightarrow> (Inr (MirroredRoute r), w)
                | None \<Rightarrow>
                    (let r = length (reactive_store w);
                         w1 = w\<lparr>reactive_store := reactive_store w @ [nuxt2_route app],
                                nuxtApp := app\<lparr>mirrored_route := Some r\<rparr>\<rparr>
                     in case useRouter w1 of
                          Inl e \<Rightarrow> (Inl e, w1)
                        | Inr rt \<Rightarrow> (Inr (MirroredRoute r), log (RouterAfterEach rt r) w1)))))"

subsection \<open>Adapting middleware\<close>

text \<open>A new-style middleware gets the target and the source route and returns a value or
  throws; it runs arbitrary code of the application, so it is a function of the state.
  A legacy middleware gets the legacy context, of which the adapter uses \<^verbatim>\<open>route\<close>,
  \<^verbatim>\<open>from\<close>, \<^verbatim>\<open>error\<close> and \<^verbatim>\<open>redirect\<close>. The two callbacks belong to the host: a call is
  recorded in the trace, and the context says what the call returns.\<close>

type_synonym route_middleware =
  "route \<Rightarrow> route \<Rightarrow> world \<Rightarrow> (exn + middleware_return) \<times> world"

record legacy_context =
  ctx_route :: route
  ctx_from :: route
  ctx_error :: "middleware_return \<Rightarrow> middleware_return"
  ctx_redirect :: "middleware_return \<Rightarrow> middleware_return"

type_synonym legacy_middleware =
  "legacy_context \<Rightarrow> world \<Rightarrow> (exn + middleware_return) \<times> world"

text \<open>The call \<^verbatim>\<open>middleware(ctx.route, ctx.from)\<close> that \<^verbatim>\<open>callWithNuxt\<close> makes. The
  parameter is untyped in the source: \<^verbatim>\<open>addRouteMiddleware\<close> passes its optional
  argument on, and calling \<^verbatim>\<open>undefined\<close> throws a \<^verbatim>\<open>TypeError\<close>.\<close>

fun call_middleware ::
  "route_middleware option \<Rightarrow> route \<Rightarrow> route \<Rightarrow> world \<Rightarrow> (exn + middleware_return) \<times> world"
where
  "call_middleware (Some mw) to from w = mw to from w"
| "call_middleware None to from w = (Inl (TypeError ''middleware is not a function''), w)"

text \<open>\<^verbatim>\<open>convertToLegacyMiddleware\<close>. A throw of the awaited call leaves the function at
  once, before the \<^verbatim>\<open>delete\<close>: the source has no \<^verbatim>\<open>try\<close> around it.\<close>

definition convertToLegacyMiddleware :: "route_middleware option \<Rightarrow> legacy_middleware" where
  "convertToLegacyMiddleware middleware ctx w =
     (let w1 = set_processing (Some True) w in
      case callWithNuxt (call_middleware middleware (ctx_route ctx) (ctx_from ctx)) w1 of
        (Inl e, w2) \<Rightarrow> (Inl e, w2)
      | (Inr result, w2) \<Rightarrow>
          (let w3 = set_processing None w2 in
           if instanceof_Error result then
             (Inr (ctx_error ctx result), log (CtxError result) w3)
           else if truthy result then
             (Inr (ctx_redirect ctx result), log (CtxRedirect result) w3)
           else (Inr result, w3)))"

text \<open>\<^verbatim>\<open>isProcessingMiddleware\<close>: the flag of the application, or \<^verbatim>\<open>true\<close> when
  \<^verbatim>\<open>useNuxtApp\<close> throws (within an async middleware).\<close>

definition isProcessingMiddleware :: "world \<Rightarrow> bool" where
  "isProcessingMiddleware w =
     (case useNuxtApp w of
        Inl _ \<Rightarrow> True
      | Inr app \<Rightarrow> flag_set (processingMiddleware app))"

definition defineNuxtRouteMiddleware :: "route_middleware \<Rightarrow> legacy_middleware" where
  "defineNuxtRouteMiddleware middleware = convertToLegacyMiddleware (Some middleware)"

subsection \<open>Registering middleware\<close>

text \<open>\<^verbatim>\<open>nuxtApp._middleware\<close>: the global list and the named registry. The list is
  untyped in the source; an entry of the model says which kind of function it is.\<close>

datatype stored_middleware =
    Unadapted "route_middleware option"
  | Adapted legacy_middleware

record middleware_registry =
  mw_global :: "stored_middleware list"
  mw_named :: "string \<rightharpoonup> legacy_middleware"

record runtime =
  rt_world :: world
  rt_middleware :: middleware_registry

text \<open>The first parameter of \<^verbatim>\<open>addRouteMiddleware\<close>: \<^verbatim>\<open>string | RouteMiddleware\<close>.\<close>

datatype name_or_middleware = NameArg string | MiddlewareArg route_middleware

record add_options =
  opt_global :: "bool option"

fun is_function :: "name_or_middleware \<Rightarrow> bool" where
  "is_function (MiddlewareArg _) = True"
| "is_function (NameArg _) = False"

text \<open>\<^verbatim>\<open>options.global\<close>, with \<^verbatim>\<open>options = {}\<close> when the argument is absent.\<close>

fun options_global :: "add_options option \<Rightarrow> bool" where
  "options_global None = False"
| "options_global (Some opts) = flag_set (opt_global opts)"

text \<open>\<^verbatim>\<open>addRouteMiddleware(name, middleware, options = {})\<close>. The source tests
  \<^verbatim>\<open>options.global || typeof name === 'function'\<close> and pushes
  \<^verbatim>\<open>typeof name === 'function' ? name : middleware\<close>; the model splits on \<^verbatim>\<open>name\<close> first,
  which gives the same three cases.\<close>

definition addRouteMiddleware ::
  "name_or_middleware \<Rightarrow> route_middleware option \<Rightarrow> add_options option \<Rightarrow> runtime
     \<Rightarrow> exn + runtime"
where
  "addRouteMiddleware name middleware options rt =
     (case useNuxtApp (rt_world rt) of
        Inl e \<Rightarrow> Inl e
      | Inr _ \<Rightarrow>
          (let reg = rt_middleware rt in
           case name of
                MiddlewareArg f \<Rightarrow>
                  Inr (rt\<lparr>rt_middleware := reg\<lparr>mw_global := mw_global reg @ [Unadapted (Some f)]\<rparr>\<rparr>)
              | NameArg n \<Rightarrow>
                  if options_global options then
                    Inr (rt\<lparr>rt_middleware :=
                            reg\<lparr>mw_global := mw_global reg @ [Unadapted middleware]\<rparr>\<rparr>)
                  else
                    Inr (rt\<lparr>rt_middleware :=
                            reg\<lparr>mw_named := (mw_named reg)(n \<mapsto> convertToLegacyMiddleware middleware)\<rparr>\<rparr>)))"

subsection \<open>The environment of a build\<close>

text \<open>The build flags the module reads, and the collaborators that compute without
  touching the state: the URL helpers of \<^verbatim>\<open>ufo\<close> (\<^verbatim>\<open>hasProtocol\<close> is always called with
  \<^verbatim>\<open>acceptRelative: true\<close>; of \<^verbatim>\<open>parseURL\<close> only the \<^verbatim>\<open>protocol\<close> is read), the router's
  \<^verbatim>\<open>resolve(to).resolved.fullPath\<close>, the \<^verbatim>\<open>app.baseURL\<close> of the runtime configuration,
  \<^verbatim>\<open>createError\<close>, and the language's conversion of a number to a string. They are
  parameters: every theorem holds whatever they compute.

  \<^verbatim>\<open>callHook\<close> is the awaited \<^verbatim>\<open>nuxtApp.callHook(name)\<close>: it runs the handlers the
  application registered, which may change the state, and its promise is fulfilled or
  rejected with an error.\<close>

record env =
  import_meta_client :: bool
  process_client :: bool
  process_server :: bool
  process_dev :: bool
  hasProtocol :: "string \<Rightarrow> bool"
  parseURL_protocol :: "string \<Rightarrow> string option"
  isScriptProtocol :: "string \<Rightarrow> bool"
  withQuery :: "string \<Rightarrow> (string \<times> string) list \<Rightarrow> string"
  joinURL :: "string \<Rightarrow> string \<Rightarrow> string"
  resolve_fullPath :: "router \<Rightarrow> raw_location \<Rightarrow> string option"
  baseURL :: string
  createError :: "error_input \<Rightarrow> nuxt_error"
  numberToString :: "js_number \<Rightarrow> string"
  callHook :: "string \<Rightarrow> world \<Rightarrow> (exn + unit) \<times> world"

text \<open>A client build and a server build: the three flags agree.\<close>

definition on_client :: "env \<Rightarrow> bool" where
  "on_client env = (import_meta_client env \<and> process_client env \<and> \<not> process_server env)"

definition on_server :: "env \<Rightarrow> bool" where
  "on_server env = (process_server env \<and> \<not> process_client env \<and> \<not> import_meta_client env)"

subsection \<open>Options of a navigation\<close>

datatype feature_value = FeatureBool bool | FeatureNumber js_number

text \<open>\<^verbatim>\<open>OpenWindowFeatures\<close> as \<^verbatim>\<open>Object.entries\<close> lists it: the properties in order, a
  property possibly holding \<^verbatim>\<open>undefined\<close>.\<close>

type_synonym window_features = "(string \<times> feature_value option) list"

record open_options =
  open_target :: "string option"
  open_windowFeatures :: "window_features option"

record navigate_options =
  opt_replace :: "bool option"
  opt_redirectCode :: "int option"
  opt_external :: "bool option"
  opt_open :: "open_options option"

text \<open>The optional chains \<^verbatim>\<open>options?.external\<close>, \<^verbatim>\<open>options?.replace\<close>, \<^verbatim>\<open>options?.open\<close>
  and \<^verbatim>\<open>options?.redirectCode || 302\<close>.\<close>

fun options_external :: "navigate_options option \<Rightarrow> bool" where
  "options_external None = False"
| "options_external (Some opts) = flag_set (opt_external opts)"

fun options_replace :: "navigate_options option \<Rightarrow> bool" where
  "options_replace None = False"
| "options_replace (Some opts) = flag_set (opt_replace opts)"

fun options_open :: "navigate_options option \<Rightarrow> open_options option" where
  "options_open None = None"
| "options_open (Some opts) = opt_open opts"

fun redirect_code :: "navigate_options option \<Rightarrow> int" where
  "redirect_code None = 302"
| "redirect_code (Some opts) =
     (case opt_redirectCode opts of
        None \<Rightarrow> 302
      | Some c \<Rightarrow> if c = 0 then 302 else c)"

subsection \<open>Formatting window features\<close>

definition lower_char :: "char \<Rightarrow> char" where
  "lower_char c =
     (case map_of (zip ''ABCDEFGHIJKLMNOPQRSTUVWXYZ'' ''abcdefghijklmnopqrstuvwxyz'') c of
        Some l \<Rightarrow> l
      | None \<Rightarrow> c)"

definition toLowerCase :: "string \<Rightarrow> string" where
  "toLowerCase s = map lower_char s"

text \<open>\<^verbatim>\<open>${value}\<close>: a boolean prints as \<^verbatim>\<open>true\<close> or \<^verbatim>\<open>false\<close>, a number as the language
  prints it.\<close>

fun feature_string :: "env \<Rightarrow> feature_value \<Rightarrow> string" where
  "feature_string env (FeatureBool b) = (if b then ''true'' else ''false'')"
| "feature_string env (FeatureNumber x) = numberToString env x"

fun join :: "string \<Rightarrow> string list \<Rightarrow> string" where
  "join sep [] = []"
| "join sep [x] = x"
| "join sep (x # y # ys) = x @ sep @ join sep (y # ys)"

text \<open>\<^verbatim>\<open>Object.entries(windowFeatures).filter(([_, value]) => value !== undefined)
  .map(([feature, value]) => `${feature.toLowerCase()}=${value}`).join(', ')\<close>\<close>

fun feature_entry :: "env \<Rightarrow> string \<times> feature_value option \<Rightarrow> string option" where
  "feature_entry env (feature, None) = None"
| "feature_entry env (feature, Some v) =
     Some (toLowerCase feature @ ''='' @ feature_string env v)"

definition format_features :: "env \<Rightarrow> window_features \<Rightarrow> string" where
  "format_features env windowFeatures =
     join '', '' (List.map_filter (feature_entry env) windowFeatures)"

subsection \<open>Navigating\<close>

text \<open>\<^verbatim>\<open>if (!to) { to = '/' }\<close>: an absent target and the empty string become \<^verbatim>\<open>'/'\<close>.\<close>

fun normalize_target :: "raw_location option \<Rightarrow> raw_location" where
  "normalize_target None = LocString ''/''"
| "normalize_target (Some (LocString s)) = (if s = [] then LocString ''/'' else LocString s)"
| "normalize_target (Some (LocObject l)) = LocObject l"

text \<open>\<^verbatim>\<open>toPath\<close>.\<close>

fun target_path :: "env \<Rightarrow> raw_location \<Rightarrow> string" where
  "target_path env (LocString s) = s"
| "target_path env (LocObject l) =
     withQuery env (or_default (loc_path l) ''/'')
       (case loc_query l of None \<Rightarrow> [] | Some q \<Rightarrow> q)
     @ or_default (loc_hash l) []"

text \<open>How a promise settles.\<close>

datatype settled = Fulfilled | Rejected exn

text \<open>What a call of \<^verbatim>\<open>navigateTo\<close> returns when it does not throw: the resolved promise
  \<^verbatim>\<open>Promise.resolve()\<close>, the target itself, the promise of the hook chained with the
  redirect (with how it settles), or the promise of the router's \<^verbatim>\<open>push\<close> or
  \<^verbatim>\<open>replace\<close>.\<close>

datatype nav_result =
    ResolvedPromise
  | ReturnedLocation raw_location
  | RedirectPromise settled
  | RouterPromise

definition external_not_allowed :: exn where
  "external_not_allowed =
     Error (''Navigating to an external URL is not allowed by default. Use ''
            @ [CHR 0x60] @ ''navigateTo(url, { external: true })'' @ [CHR 0x60] @ ''.'')"

definition script_protocol_error :: "string \<Rightarrow> exn" where
  "script_protocol_error protocol =
     Error (''Cannot navigate to a URL with '' @ [CHR 0x27] @ protocol @ [CHR 0x27]
            @ '' protocol.'')"

text \<open>The checks of an external target (lines 119 to 127): the exception they throw, if
  any.\<close>

definition external_check :: "env \<Rightarrow> bool \<Rightarrow> navigate_options option \<Rightarrow> string \<Rightarrow> exn option" where
  "external_check env isExternal options toPath =
     (if isExternal then
        (if \<not> options_external options then Some external_not_allowed
         else
           (case parseURL_protocol env toPath of
              None \<Rightarrow> None
            | Some protocol \<Rightarrow>
                if protocol \<noteq> [] \<and> isScriptProtocol env protocol
                then Some (script_protocol_error protocol)
                else None))
      else None)"

definition ssr_event_of :: "nuxt_app \<Rightarrow> h3_event option" where
  "ssr_event_of app = (case ssrContext app of None \<Rightarrow> None | Some c \<Rightarrow> ssr_event c)"

text \<open>The callback of \<^verbatim>\<open>.then\<close> on line 140, run in the state the hook left: it reads
  \<^verbatim>\<open>nuxtApp.ssrContext!.event\<close> then, and sends the redirect. Reading \<^verbatim>\<open>event\<close> of an
  absent \<^verbatim>\<open>ssrContext\<close> throws, which rejects the promise.\<close>

definition send_after_hook :: "string \<Rightarrow> int \<Rightarrow> world \<Rightarrow> nav_result \<times> world" where
  "send_after_hook redirectLocation code w =
     (case ssrContext (nuxtApp w) of
        None \<Rightarrow>
          (RedirectPromise (Rejected (TypeError ''cannot read event of an absent ssrContext'')), w)
      | Some c \<Rightarrow>
          (RedirectPromise Fulfilled, log (SendRedirect (ssr_event c) redirectLocation code) w))"

text \<open>The server-side branch (lines 134 to 142): \<open>None\<close> when the function goes on to the
  client-side redirection. The location is computed, the hook is called and awaited, and
  the callback runs only when the hook's promise is fulfilled: a rejection of the hook is
  the rejection of the returned promise, and nothing is sent.\<close>

definition server_redirect ::
  "env \<Rightarrow> raw_location \<Rightarrow> string \<Rightarrow> bool \<Rightarrow> navigate_options option \<Rightarrow> router \<Rightarrow> world
     \<Rightarrow> ((exn + nav_result) \<times> world) option"
where
  "server_redirect env to toPath isExternal options rt w =
     (if process_server env then
        (case useNuxtApp w of
           Inl e \<Rightarrow> Some (Inl e, w)
         | Inr app \<Rightarrow>
             (case ssr_event_of app of
                None \<Rightarrow> None
              | Some event \<Rightarrow>
                  (let redirectLocation =
                         (if isExternal then toPath
                          else joinURL env (baseURL env) (or_default (resolve_fullPath env rt to) ''/''))
                   in case callHook env ''app:redirected'' (log (CallHook ''app:redirected'') w) of
                        (Inl e, w1) \<Rightarrow> Some (Inr (RedirectPromise (Rejected e)), w1)
                      | (Inr _, w1) \<Rightarrow>
                          (case send_after_hook redirectLocation (redirect_code options) w1 of
                             (promise, w2) \<Rightarrow> Some (Inr promise, w2)))))
      else None)"

text \<open>The client-side redirection (lines 143 to 152).\<close>

definition client_redirect ::
  "raw_location \<Rightarrow> string \<Rightarrow> bool \<Rightarrow> navigate_options option \<Rightarrow> router \<Rightarrow> world
     \<Rightarrow> (exn + nav_result) \<times> world"
where
  "client_redirect to toPath isExternal options rt w =
     (if isExternal then
        (Inr ResolvedPromise,
         log (if options_replace options then LocationReplace toPath else LocationHref toPath) w)
      else
        (Inr RouterPromise,
         log (if options_replace options then RouterReplace rt to else RouterPush rt to) w))"

text \<open>\<^verbatim>\<open>navigateTo(to, options)\<close>.\<close>

definition navigateTo ::
  "env \<Rightarrow> raw_location option \<Rightarrow> navigate_options option \<Rightarrow> world \<Rightarrow> (exn + nav_result) \<times> world"
where
  "navigateTo env to0 options w =
     (let to = normalize_target to0;
          toPath = target_path env to
      in case (if import_meta_client env then options_open options else None) of
           Some opn \<Rightarrow>
             (let target = (case open_target opn of None \<Rightarrow> ''_blank'' | Some t \<Rightarrow> t);
                  windowFeatures = (case open_windowFeatures opn of None \<Rightarrow> [] | Some f \<Rightarrow> f)
              in (Inr ResolvedPromise,
                  log (WindowOpen toPath target (format_features env windowFeatures)) w))
         | None \<Rightarrow>
             (let isExternal = (options_external options \<or> hasProtocol env toPath) in
              case external_check env isExternal options toPath of
                Some e \<Rightarrow> (Inl e, w)
              | None \<Rightarrow>
                  if process_client env \<and> \<not> isExternal \<and> isProcessingMiddleware w
                  then (Inr (ReturnedLocation to), w)
                  else
                    (case useRouter w of
                       Inl e \<Rightarrow> (Inl e, w)
                     | Inr rt \<Rightarrow>
                         (case server_redirect env to toPath isExternal options rt w of
                            Some r \<Rightarrow> r
                          | None \<Rightarrow> client_redirect to toPath isExternal options rt w))))"

subsection \<open>Aborting a navigation\<close>

definition showError :: "nuxt_error \<Rightarrow> world \<Rightarrow> unit \<times> world" where
  "showError err w = ((), log (ShowError err) w)"

definition abort_outside_middleware :: exn where
  "abort_outside_middleware =
     Error ''abortNavigation() is only usable inside a route middleware handler.''"

text \<open>\<^verbatim>\<open>if (!err)\<close>: no argument, or the empty string.\<close>

fun error_given :: "error_input option \<Rightarrow> bool" where
  "error_given None = False"
| "error_given (Some (ErrString s)) = (s \<noteq> [])"
| "error_given (Some (ErrObject _)) = True"

text \<open>\<^verbatim>\<open>abortNavigation(err)\<close>: it returns \<^verbatim>\<open>false\<close> or throws.\<close>

definition abortNavigation :: "env \<Rightarrow> error_input option \<Rightarrow> world \<Rightarrow> (exn + bool) \<times> world" where
  "abortNavigation env err w =
     (if process_dev env \<and> \<not> isProcessingMiddleware w then (Inl abort_outside_middleware, w)
      else
        (case err of
           None \<Rightarrow> (Inr False, w)
         | Some input \<Rightarrow>
             if \<not> error_given err then (Inr False, w)
             else
               (let created = createError env input in
                if err_fatal created then
                  (case useNuxtApp w of
                     Inl e \<Rightarrow> (Inl e, w)
                   | Inr app \<Rightarrow> (Inl (NuxtError created), snd (callWithNuxt (showError created) w)))
                else (Inl (NuxtError created), w))))"

subsection \<open>A sample environment\<close>

text \<open>Concrete collaborators and states, on which the theorems below are exercised. The
  URL helpers are simple stand-ins for the library's: a protocol is what precedes the
  first colon, the colon included; a protocol-relative URL starts with two slashes.\<close>

definition sample_protocol :: "string \<Rightarrow> string option" where
  "sample_protocol s =
     (if CHR '':'' \<in> set s then Some (takeWhile (\<lambda>c. c \<noteq> CHR '':'') s @ '':'') else None)"

definition sample_hasProtocol :: "string \<Rightarrow> bool" where
  "sample_hasProtocol s = (sample_protocol s \<noteq> None \<or> take 2 s = ''//'')"

definition sample_isScriptProtocol :: "string \<Rightarrow> bool" where
  "sample_isScriptProtocol p =
     (toLowerCase p \<in> set [''blob:'', ''data:'', ''javascript:'', ''vbscript:''])"

definition sample_withQuery :: "string \<Rightarrow> (string \<times> string) list \<Rightarrow> string" where
  "sample_withQuery p q =
     (if q = [] then p else p @ ''?'' @ join ''&'' (map (\<lambda>(k, v). k @ ''='' @ v) q))"

definition sample_joinURL :: "string \<Rightarrow> string \<Rightarrow> string" where
  "sample_joinURL base p = (if base = ''/'' then p else base @ p)"

fun sample_resolve :: "router \<Rightarrow> raw_location \<Rightarrow> string option" where
  "sample_resolve rt (LocString s) = Some s"
| "sample_resolve rt (LocObject l) = loc_path l"

fun sample_createError :: "error_input \<Rightarrow> nuxt_error" where
  "sample_createError (ErrString s) = \<lparr>err_message = s, err_fatal = False\<rparr>"
| "sample_createError (ErrObject p) =
     \<lparr>err_message = or_default (part_message p) [], err_fatal = flag_set (part_fatal p)\<rparr>"

text \<open>A stand-in for the language's printing of a number, right on the integers of
  magnitude below \<^verbatim>\<open>1e21\<close>, on \<^verbatim>\<open>NaN\<close> and on the infinities.\<close>

fun decimal :: "nat \<Rightarrow> string" where
  "decimal n =
     (if n < 10 then [''0123456789'' ! n]
      else decimal (n div 10) @ [''0123456789'' ! (n mod 10)])"

fun sample_numberToString :: "js_number \<Rightarrow> string" where
  "sample_numberToString NotANumber = ''NaN''"
| "sample_numberToString PlusInfinity = ''Infinity''"
| "sample_numberToString MinusInfinity = ''-Infinity''"
| "sample_numberToString (NumberValue r) =
     (if r < 0 then ''-'' @ decimal (nat \<lfloor>- r\<rfloor>) else decimal (nat \<lfloor>r\<rfloor>))"

text \<open>A hook whose one handler runs and succeeds, and a hook whose handler fails.\<close>

definition sample_callHook :: "string \<Rightarrow> world \<Rightarrow> (exn + unit) \<times> world" where
  "sample_callHook name w = (Inr (), log (HookHandler name) w)"

definition failing_callHook :: "string \<Rightarrow> world \<Rightarrow> (exn + unit) \<times> world" where
  "failing_callHook name w = (Inl (Error ''handler failed''), log (HookHandler name) w)"

text \<open>A hook whose handler hands the render over to another event.\<close>

definition moving_callHook :: "string \<Rightarrow> world \<Rightarrow> (exn + unit) \<times> world" where
  "moving_callHook name w =
     (Inr (), w\<lparr>nuxtApp := (nuxtApp w)\<lparr>ssrContext := Some \<lparr>ssr_event = Some 9\<rparr>\<rparr>\<rparr>)"

definition client_env :: env where
  "client_env =
     \<lparr>import_meta_client = True, process_client = True, process_server = False,
      process_dev = True, hasProtocol = sample_hasProtocol,
      parseURL_protocol = sample_protocol, isScriptProtocol = sample_isScriptProtocol,
      withQuery = sample_withQuery, joinURL = sample_joinURL,
      resolve_fullPath = sample_resolve, baseURL = ''/app'',
      createError = sample_createError, numberToString = sample_numberToString,
      callHook = sample_callHook\<rparr>"

definition server_env :: env where
  "server_env =
     client_env\<lparr>import_meta_client := False, process_client := False, process_server := True\<rparr>"

text \<open>A server build in which the handler of the hook fails.\<close>

definition failing_hook_env :: env where
  "failing_hook_env = server_env\<lparr>callHook := failing_callHook\<rparr>"

text \<open>A server build in which the handler of the hook changes the event.\<close>

definition moving_hook_env :: env where
  "moving_hook_env = server_env\<lparr>callHook := moving_callHook\<rparr>"

definition sample_app :: nuxt_app where
  "sample_app =
     \<lparr>processingMiddleware = None, mirrored_route = None, ssrContext = None,
      nuxt2_router = 1, nuxt2_route = ''/home''\<rparr>"

definition sample_world :: world where
  "sample_world =
     \<lparr>nuxtApp = sample_app, nuxt_available = True, current_instance = None,
      reactive_store = [], effects = []\<rparr>"

text \<open>The state during a server-side render of a request.\<close>

definition ssr_world :: world where
  "ssr_world =
     sample_world\<lparr>nuxtApp := sample_app\<lparr>ssrContext := Some \<lparr>ssr_event = Some 7\<rparr>\<rparr>\<rparr>"

text \<open>The state inside a component.\<close>

definition component_world :: world where
  "component_world =
     sample_world\<lparr>current_instance := Some \<lparr>vue_router = 2, vue_route = ''/page''\<rparr>\<rparr>"

definition sample_ctx :: legacy_context where
  "sample_ctx =
     \<lparr>ctx_route = ''/account'', ctx_from = ''/home'',
      ctx_error = (\<lambda>_. RetUndefined), ctx_redirect = (\<lambda>_. RetUndefined)\<rparr>"

text \<open>Middleware that sends a visitor to the login page, and middleware that throws.\<close>

definition redirecting_middleware :: route_middleware where
  "redirecting_middleware to from w = (Inr (RetString ''/login''), w)"

definition throwing_middleware :: route_middleware where
  "throwing_middleware to from w = (Inl (Error ''boom''), w)"

text \<open>Middleware that reports whether it runs while middleware is being processed.\<close>

definition observing_middleware :: route_middleware where
  "observing_middleware to from w = (Inr (RetBool (isProcessingMiddleware w)), w)"

text \<open>Middleware that aborts the navigation: \<^verbatim>\<open>() => abortNavigation('denied')\<close>.\<close>

definition aborting_middleware :: route_middleware where
  "aborting_middleware to from w =
     (case abortNavigation client_env (Some (ErrString ''denied'')) w of
        (Inl e, w1) \<Rightarrow> (Inl e, w1)
      | (Inr b, w1) \<Rightarrow> (Inr (RetBool b), w1))"

definition sample_runtime :: runtime where
  "sample_runtime =
     \<lparr>rt_world = sample_world, rt_middleware = \<lparr>mw_global = [], mw_named = Map.empty\<rparr>\<rparr>"

definition popup_options :: navigate_options where
  "popup_options =
     \<lparr>opt_replace = None, opt_redirectCode = None, opt_external = None,
      opt_open = Some \<lparr>open_target = None, open_windowFeatures = None\<rparr>\<rparr>"

text \<open>Options that ask for an external navigation, and the same with a popup window.\<close>

definition script_options :: navigate_options where
  "script_options =
     \<lparr>opt_replace = None, opt_redirectCode = None, opt_external = Some True, opt_open = None\<rparr>"

definition script_popup_options :: navigate_options where
  "script_popup_options =
     script_options\<lparr>opt_open := Some \<lparr>open_target = Some ''_self'', open_windowFeatures = None\<rparr>\<rparr>"

definition redirect_options :: navigate_options where
  "redirect_options =
     \<lparr>opt_replace = None, opt_redirectCode = Some 301, opt_external = None, opt_open = None\<rparr>"



text \<open>The state while an adapted middleware runs, and the state after a first
  \<^verbatim>\<open>useRoute()\<close> outside a component.\<close>

definition in_middleware_world :: world where
  "in_middleware_world = set_processing (Some True) sample_world"

definition mirrored_world :: world where
  "mirrored_world =
     sample_world\<lparr>reactive_store := [''/home''],
       nuxtApp := sample_app\<lparr>mirrored_route := Some 0\<rparr>,
       effects := [RouterAfterEach 1 0]\<rparr>"


definition empty_location :: location where
  "empty_location = \<lparr>loc_path = None, loc_query = None, loc_hash = None\<rparr>"

text \<open>Options with \<^verbatim>\<open>external: true\<close> and the status code 0.\<close>

definition external_options :: navigate_options where
  "external_options = script_options\<lparr>opt_redirectCode := Some 0\<rparr>"


text \<open>The popup branch of \<^verbatim>\<open>navigateTo\<close> (lines 104 to 116) is taken: \<^verbatim>\<open>options?.open\<close> is
  set and \<^verbatim>\<open>import.meta.client\<close> holds.\<close>

definition open_path_taken :: "env \<Rightarrow> navigate_options option \<Rightarrow> bool" where
  "open_path_taken env options = (import_meta_client env \<and> options_open options \<noteq> None)"

section \<open>Properties\<close>

subsection \<open>Shared facts\<close>

lemma falsy_values:
  "(\<not> truthy result) = (result \<in> {RetUndefined, RetNull, RetBool False, RetString []})"
  by (cases result) auto

lemma errors_are_truthy: "instanceof_Error result \<Longrightarrow> truthy result"
  by (cases result) simp_all

text \<open>Past the popup branch, \<^verbatim>\<open>navigateTo\<close> is the checks of an external target, the
  early return inside middleware, and the server-side or client-side redirection.\<close>

lemma navigateTo_past_open:
  assumes "\<not> open_path_taken env options"
  shows "navigateTo env to options w =
     (let target = normalize_target to;
          toPath = target_path env target;
          isExternal = (options_external options \<or> hasProtocol env toPath)
      in case external_check env isExternal options toPath of
           Some e \<Rightarrow> (Inl e, w)
         | None \<Rightarrow>
             if process_client env \<and> \<not> isExternal \<and> isProcessingMiddleware w
             then (Inr (ReturnedLocation target), w)
             else
               (case useRouter w of
                  Inl e \<Rightarrow> (Inl e, w)
                | Inr rt \<Rightarrow>
                    (case server_redirect env target toPath isExternal options rt w of
                       Some r \<Rightarrow> r
                     | None \<Rightarrow> client_redirect target toPath isExternal options rt w)))"
  using assms by (auto simp add: navigateTo_def open_path_taken_def Let_def)

lemma isProcessingMiddleware_iff:
  "isProcessingMiddleware w =
     (\<not> nuxt_available w \<or> processingMiddleware (nuxtApp w) = Some True)"
  by (cases "processingMiddleware (nuxtApp w)")
    (auto simp add: isProcessingMiddleware_def useNuxtApp_def)

text \<open>The test \<^verbatim>\<open>options.global || typeof name === 'function'\<close> of
  \<^verbatim>\<open>addRouteMiddleware\<close>, as the case split of the model decides it.\<close>

lemma addRouteMiddleware_global_test:
  "(options_global options \<or> is_function name) =
     (case name of MiddlewareArg f \<Rightarrow> True | NameArg n \<Rightarrow> options_global options)"
  by (cases name) simp_all


subsection \<open>Registering middleware\<close>

text \<open>Against claim C1 as stated: \<^verbatim>\<open>addRouteMiddleware(mw)\<close>, with only a function, pushes
  the function itself onto the global list, not the wrapper that
  \<^verbatim>\<open>convertToLegacyMiddleware\<close> makes of it.\<close>

theorem addRouteMiddleware_global_counterexample:
  "addRouteMiddleware (MiddlewareArg redirecting_middleware) None None sample_runtime =
     Inr (sample_runtime\<lparr>rt_middleware :=
            \<lparr>mw_global = [Unadapted (Some redirecting_middleware)], mw_named = Map.empty\<rparr>\<rparr>)
   \<and> addRouteMiddleware (MiddlewareArg redirecting_middleware) None None sample_runtime \<noteq>
     Inr (sample_runtime\<lparr>rt_middleware :=
            \<lparr>mw_global = [Adapted (convertToLegacyMiddleware (Some redirecting_middleware))],
             mw_named = Map.empty\<rparr>\<rparr>)"
  by (simp add: addRouteMiddleware_def useNuxtApp_def sample_runtime_def sample_world_def Let_def)

text \<open>Claim C1, amended. When the application instance is available: a middleware
  registered under a name, without the global option, is stored in the named registry
  wrapped by \<^verbatim>\<open>convertToLegacyMiddleware\<close>, and the global list is left as it was; a
  middleware registered globally (with the global option, or by passing only a function)
  is pushed onto the global list as it is, unadapted, and the named registry is left as
  it was.\<close>

theorem addRouteMiddleware_registers:
  assumes "nuxt_available (rt_world rt)"
  shows "(\<not> options_global options \<longrightarrow>
            addRouteMiddleware (NameArg n) middleware options rt =
              Inr (rt\<lparr>rt_middleware := (rt_middleware rt)
                     \<lparr>mw_named := (mw_named (rt_middleware rt))(n \<mapsto> convertToLegacyMiddleware middleware)\<rparr>\<rparr>))
       \<and> (options_global options \<longrightarrow>
            addRouteMiddleware (NameArg n) middleware options rt =
              Inr (rt\<lparr>rt_middleware := (rt_middleware rt)
                     \<lparr>mw_global := mw_global (rt_middleware rt) @ [Unadapted middleware]\<rparr>\<rparr>))
       \<and> addRouteMiddleware (MiddlewareArg f) middleware options rt =
              Inr (rt\<lparr>rt_middleware := (rt_middleware rt)
                     \<lparr>mw_global := mw_global (rt_middleware rt) @ [Unadapted (Some f)]\<rparr>\<rparr>)"
  using assms by (simp add: addRouteMiddleware_def useNuxtApp_def Let_def)

theorem addRouteMiddleware_registers_witness:
  "nuxt_available (rt_world sample_runtime)
   \<and> \<not> options_global None
   \<and> addRouteMiddleware (NameArg ''auth'') (Some redirecting_middleware) None sample_runtime =
       Inr (sample_runtime\<lparr>rt_middleware :=
              \<lparr>mw_global = [],
               mw_named = [''auth'' \<mapsto> convertToLegacyMiddleware (Some redirecting_middleware)]\<rparr>\<rparr>)
   \<and> options_global (Some \<lparr>opt_global = Some True\<rparr>)
   \<and> addRouteMiddleware (NameArg ''auth'') (Some redirecting_middleware)
         (Some \<lparr>opt_global = Some True\<rparr>) sample_runtime =
       Inr (sample_runtime\<lparr>rt_middleware :=
              \<lparr>mw_global = [Unadapted (Some redirecting_middleware)], mw_named = Map.empty\<rparr>\<rparr>)"
  using addRouteMiddleware_registers [of sample_runtime None "''auth''" "Some redirecting_middleware"]
    addRouteMiddleware_registers [of sample_runtime "Some \<lparr>opt_global = Some True\<rparr>" "''auth''"
      "Some redirecting_middleware"]
  by (simp add: sample_runtime_def sample_world_def)

subsection \<open>Adapting middleware\<close>

text \<open>Claim C2. Let the wrapped middleware, called with the context's routes in the state
  where the flag is set, return \<open>result\<close>. Then the adapted middleware calls
  \<^verbatim>\<open>ctx.error(result)\<close> exactly when \<open>result\<close> is an \<^verbatim>\<open>Error\<close>, calls
  \<^verbatim>\<open>ctx.redirect(result)\<close> exactly when \<open>result\<close> is truthy and not an \<^verbatim>\<open>Error\<close> (the
  boolean \<^verbatim>\<open>true\<close> is truthy), and calls neither when \<open>result\<close> is falsy, which is when it
  is \<^verbatim>\<open>undefined\<close>, \<^verbatim>\<open>null\<close>, \<^verbatim>\<open>false\<close> or the empty string; it then returns \<open>result\<close>
  unchanged.\<close>

theorem convertToLegacyMiddleware_dispatch:
  assumes "mw (ctx_route ctx) (ctx_from ctx)
             ((set_processing (Some True) w)\<lparr>nuxt_available := True\<rparr>) = (Inr result, w2)"
  shows "effects (snd (convertToLegacyMiddleware (Some mw) ctx w)) =
           effects w2 @ (if instanceof_Error result then [CtxError result]
                         else if truthy result then [CtxRedirect result]
                         else [])
       \<and> fst (convertToLegacyMiddleware (Some mw) ctx w) =
           (if instanceof_Error result then Inr (ctx_error ctx result)
            else if truthy result then Inr (ctx_redirect ctx result)
            else Inr result)
       \<and> truthy (RetBool True)
       \<and> (\<not> truthy result) = (result \<in> {RetUndefined, RetNull, RetBool False, RetString []})"
  using assms
  by (simp add: convertToLegacyMiddleware_def callWithNuxt_def Let_def log_def
      set_processing_def falsy_values)

theorem convertToLegacyMiddleware_dispatch_witness:
  "redirecting_middleware (ctx_route sample_ctx) (ctx_from sample_ctx)
     ((set_processing (Some True) sample_world)\<lparr>nuxt_available := True\<rparr>) =
     (Inr (RetString ''/login''), set_processing (Some True) sample_world)
   \<and> effects (snd (convertToLegacyMiddleware (Some redirecting_middleware) sample_ctx sample_world)) =
       [CtxRedirect (RetString ''/login'')]
   \<and> fst (convertToLegacyMiddleware (Some redirecting_middleware) sample_ctx sample_world) =
       Inr RetUndefined"
  using convertToLegacyMiddleware_dispatch [of redirecting_middleware sample_ctx sample_world
      "RetString ''/login''" "set_processing (Some True) sample_world"]
  by (simp add: redirecting_middleware_def sample_ctx_def sample_world_def set_processing_def)

text \<open>When the wrapped middleware completes without throwing, the application object the
  adapted middleware leaves behind is the one the wrapped middleware left, with the flag
  \<^verbatim>\<open>_processingMiddleware\<close> removed; the wrapped middleware is called in the state where
  the flag has just been set.\<close>

lemma adapted_middleware_return_removes_flag:
  assumes "flagged = (set_processing (Some True) w)\<lparr>nuxt_available := True\<rparr>"
    and "mw (ctx_route ctx) (ctx_from ctx) flagged = (Inr result, w2)"
  shows "processingMiddleware (nuxtApp flagged) = Some True
       \<and> isProcessingMiddleware flagged
       \<and> nuxtApp (snd (convertToLegacyMiddleware (Some mw) ctx w)) =
           (nuxtApp w2)\<lparr>processingMiddleware := None\<rparr>
       \<and> processingMiddleware (nuxtApp (snd (convertToLegacyMiddleware (Some mw) ctx w))) = None"
  using assms
  by (simp add: convertToLegacyMiddleware_def callWithNuxt_def Let_def log_def
      set_processing_def isProcessingMiddleware_def useNuxtApp_def)

lemma observing_middleware_sees_flag:
  "convertToLegacyMiddleware (Some observing_middleware) sample_ctx sample_world =
     (Inr RetUndefined, sample_world\<lparr>effects := [CtxRedirect (RetBool True)]\<rparr>)"
  by (simp add: observing_middleware_def isProcessingMiddleware_def useNuxtApp_def
      set_processing_def convertToLegacyMiddleware_def callWithNuxt_def Let_def log_def
      sample_world_def sample_app_def sample_ctx_def)

text \<open>Claim C3 says that the flag is no longer set after every invocation of an adapted
  middleware, also when the wrapped middleware throws. The code at a throwing middleware:
  the adapted middleware throws the same exception and leaves the flag set, for a
  middleware that throws an \<^verbatim>\<open>Error\<close> and for one that calls the module's own
  \<^verbatim>\<open>abortNavigation('denied')\<close>. In the state left behind no middleware runs, yet
  \<^verbatim>\<open>isProcessingMiddleware()\<close> holds, and the next \<^verbatim>\<open>navigateTo('/next')\<close> on the client
  returns its target without calling the router, where in the state before it pushes the
  target.\<close>

theorem adapted_middleware_throw_leaves_flag:
  "convertToLegacyMiddleware (Some throwing_middleware) sample_ctx sample_world =
     (Inl (Error ''boom''), in_middleware_world)
   \<and> convertToLegacyMiddleware (Some aborting_middleware) sample_ctx sample_world =
     (Inl (NuxtError \<lparr>err_message = ''denied'', err_fatal = False\<rparr>), in_middleware_world)
   \<and> processingMiddleware (nuxtApp in_middleware_world) = Some True
   \<and> isProcessingMiddleware in_middleware_world
   \<and> navigateTo client_env (Some (LocString ''/next'')) None in_middleware_world =
       (Inr (ReturnedLocation (LocString ''/next'')), in_middleware_world)
   \<and> navigateTo client_env (Some (LocString ''/next'')) None sample_world =
       (Inr RouterPromise, sample_world\<lparr>effects := [RouterPush 1 (LocString ''/next'')]\<rparr>)"
proof -
  have flagged: "(set_processing (Some True) sample_world)\<lparr>nuxt_available := True\<rparr> = in_middleware_world"
    by (simp add: in_middleware_world_def set_processing_def sample_world_def)
  have processing: "isProcessingMiddleware in_middleware_world"
    by (simp add: isProcessingMiddleware_iff in_middleware_world_def set_processing_def)
  have idle: "\<not> isProcessingMiddleware sample_world"
    by (simp add: isProcessingMiddleware_iff sample_world_def sample_app_def)
  have throwing: "convertToLegacyMiddleware (Some throwing_middleware) sample_ctx sample_world =
      (Inl (Error ''boom''), in_middleware_world)"
    by (simp add: convertToLegacyMiddleware_def callWithNuxt_def throwing_middleware_def
        flagged Let_def)
  have abort: "abortNavigation client_env (Some (ErrString ''denied'')) in_middleware_world =
      (Inl (NuxtError \<lparr>err_message = ''denied'', err_fatal = False\<rparr>), in_middleware_world)"
    using processing by (simp add: abortNavigation_def client_env_def)
  have aborting: "convertToLegacyMiddleware (Some aborting_middleware) sample_ctx sample_world =
      (Inl (NuxtError \<lparr>err_message = ''denied'', err_fatal = False\<rparr>), in_middleware_world)"
    by (simp add: convertToLegacyMiddleware_def callWithNuxt_def aborting_middleware_def
        flagged abort Let_def)
  have flag: "processingMiddleware (nuxtApp in_middleware_world) = Some True"
    by (simp add: in_middleware_world_def set_processing_def)
  have closed: "\<not> open_path_taken client_env None"
    by (simp add: open_path_taken_def)
  have internal: "\<not> hasProtocol client_env ''/next''"
    by (simp add: client_env_def sample_hasProtocol_def sample_protocol_def)
  have flags: "process_client client_env" "\<not> process_server client_env"
    by (simp_all add: client_env_def)
  have dropped: "navigateTo client_env (Some (LocString ''/next'')) None in_middleware_world =
      (Inr (ReturnedLocation (LocString ''/next'')), in_middleware_world)"
    using processing internal flags
    by (simp add: navigateTo_past_open [OF closed] external_check_def Let_def)
  have pushed: "navigateTo client_env (Some (LocString ''/next'')) None sample_world =
      (Inr RouterPromise, sample_world\<lparr>effects := [RouterPush 1 (LocString ''/next'')]\<rparr>)"
    using idle internal flags
    by (simp add: navigateTo_past_open [OF closed] external_check_def Let_def
        useRouter_def useNuxtApp_def server_redirect_def client_redirect_def log_def
        sample_world_def sample_app_def)
  from throwing aborting flag processing dropped pushed show ?thesis by simp
qed

subsection \<open>Navigating\<close>

text \<open>Against claim C4 as stated: on the client, with the \<^verbatim>\<open>open\<close> option, a target with a
  protocol and no \<^verbatim>\<open>external: true\<close> does not throw; the window is opened on it.\<close>

theorem navigateTo_external_open_counterexample:
  "hasProtocol client_env (target_path client_env (normalize_target (Some (LocString ''https://example.com''))))
   \<and> \<not> options_external (Some popup_options)
   \<and> navigateTo client_env (Some (LocString ''https://example.com'')) (Some popup_options) sample_world =
       (Inr ResolvedPromise,
        sample_world\<lparr>effects := [WindowOpen ''https://example.com'' ''_blank'' []]\<rparr>)"
  by (simp add: client_env_def sample_hasProtocol_def sample_protocol_def popup_options_def
      navigateTo_def Let_def log_def format_features_def sample_world_def)

text \<open>Claim C4, amended. For every target whose path has a protocol, \<^verbatim>\<open>navigateTo\<close>
  without \<^verbatim>\<open>external: true\<close> throws at the point of the call and performs no
  navigation, hook call or redirect (the state and the trace are unchanged), unless the
  popup branch is taken (the \<^verbatim>\<open>open\<close> option on the client).\<close>

theorem navigateTo_external_requires_opt_in:
  assumes "hasProtocol env (target_path env (normalize_target to))"
    and "\<not> options_external options"
    and "\<not> open_path_taken env options"
  shows "navigateTo env to options w = (Inl external_not_allowed, w)"
  using assms by (simp add: navigateTo_past_open external_check_def Let_def)

theorem navigateTo_external_requires_opt_in_witness:
  "hasProtocol client_env (target_path client_env (normalize_target (Some (LocString ''https://example.com''))))
   \<and> \<not> options_external None
   \<and> \<not> open_path_taken client_env None
   \<and> navigateTo client_env (Some (LocString ''https://example.com'')) None sample_world =
       (Inl external_not_allowed, sample_world)"
  using navigateTo_external_requires_opt_in [of client_env "Some (LocString ''https://example.com'')"
      None sample_world]
  by (simp add: client_env_def sample_hasProtocol_def sample_protocol_def open_path_taken_def)

text \<open>Against claim C5 as stated: on the client, with \<^verbatim>\<open>external: true\<close> and the \<^verbatim>\<open>open\<close>
  option, a \<^verbatim>\<open>javascript:\<close> URL does not throw; the window is opened on it.\<close>

theorem navigateTo_script_open_counterexample:
  "options_external (Some script_popup_options)
   \<and> parseURL_protocol client_env
        (target_path client_env (normalize_target (Some (LocString ''javascript:alert(1)''))))
       = Some ''javascript:''
   \<and> isScriptProtocol client_env ''javascript:''
   \<and> navigateTo client_env (Some (LocString ''javascript:alert(1)'')) (Some script_popup_options)
         sample_world =
       (Inr ResolvedPromise,
        sample_world\<lparr>effects := [WindowOpen ''javascript:alert(1)'' ''_self'' []]\<rparr>)"
  by (simp add: client_env_def sample_protocol_def sample_isScriptProtocol_def
      toLowerCase_def lower_char_def script_options_def script_popup_options_def
      navigateTo_def Let_def log_def format_features_def sample_world_def)

text \<open>Claim C5, amended. For every target URL whose protocol is a script-executing
  protocol, \<^verbatim>\<open>navigateTo\<close> with \<^verbatim>\<open>external: true\<close> throws an exception whose message names
  the protocol, and performs no navigation (the state and the trace are unchanged),
  unless the popup branch is taken (the \<^verbatim>\<open>open\<close> option on the client).\<close>

theorem navigateTo_rejects_script_protocol:
  assumes "options_external options"
    and "parseURL_protocol env (target_path env (normalize_target to)) = Some protocol"
    and "protocol \<noteq> []"
    and "isScriptProtocol env protocol"
    and "\<not> open_path_taken env options"
  shows "navigateTo env to options w =
           (Inl (Error (''Cannot navigate to a URL with '' @ [CHR 0x27] @ protocol @ [CHR 0x27]
                        @ '' protocol.'')), w)"
  using assms
  by (simp add: navigateTo_past_open external_check_def script_protocol_error_def Let_def)

theorem navigateTo_rejects_script_protocol_witness:
  "options_external (Some script_options)
   \<and> parseURL_protocol client_env
        (target_path client_env (normalize_target (Some (LocString ''javascript:alert(1)''))))
       = Some ''javascript:''
   \<and> isScriptProtocol client_env ''javascript:''
   \<and> \<not> open_path_taken client_env (Some script_options)
   \<and> navigateTo client_env (Some (LocString ''javascript:alert(1)'')) (Some script_options) sample_world =
       (Inl (Error ''Cannot navigate to a URL with 'javascript:' protocol.''), sample_world)"
  using navigateTo_rejects_script_protocol [of "Some script_options" client_env
      "Some (LocString ''javascript:alert(1)'')" "''javascript:''" sample_world]
  by (simp add: client_env_def sample_protocol_def sample_isScriptProtocol_def
      toLowerCase_def lower_char_def open_path_taken_def script_options_def)

text \<open>Against claim C6 as stated: on the client, while middleware is being processed, a
  call with the \<^verbatim>\<open>open\<close> option and an internal target does not return the target; it opens
  the window and returns the resolved promise.\<close>

theorem navigateTo_early_redirect_open_counterexample:
  "on_client client_env
   \<and> \<not> options_external (Some popup_options)
   \<and> \<not> hasProtocol client_env (target_path client_env (normalize_target (Some (LocString ''/login''))))
   \<and> isProcessingMiddleware in_middleware_world
   \<and> navigateTo client_env (Some (LocString ''/login'')) (Some popup_options) in_middleware_world =
       (Inr ResolvedPromise,
        in_middleware_world\<lparr>effects := [WindowOpen ''/login'' ''_blank'' []]\<rparr>)"
  by (simp add: client_env_def on_client_def sample_hasProtocol_def sample_protocol_def
      popup_options_def in_middleware_world_def set_processing_def isProcessingMiddleware_def
      useNuxtApp_def navigateTo_def Let_def log_def format_features_def sample_world_def)

text \<open>Claim C6, amended. On the client, for every target that is not external and every
  call without the \<^verbatim>\<open>open\<close> option: if middleware is being processed (the flag is set, or
  the application cannot be found, as within an async middleware), \<^verbatim>\<open>navigateTo\<close> returns
  the normalized target itself and calls neither \<^verbatim>\<open>push\<close> nor \<^verbatim>\<open>replace\<close> of the router
  (the state and the trace are unchanged).\<close>

theorem navigateTo_early_redirect:
  assumes "on_client env"
    and "\<not> options_external options"
    and "\<not> hasProtocol env (target_path env (normalize_target to))"
    and "flag_set (processingMiddleware (nuxtApp w)) \<or> \<not> nuxt_available w"
    and "options_open options = None"
  shows "isProcessingMiddleware w
       \<and> navigateTo env to options w = (Inr (ReturnedLocation (normalize_target to)), w)"
  using assms
  by (auto simp add: navigateTo_past_open open_path_taken_def external_check_def Let_def
      on_client_def isProcessingMiddleware_def useNuxtApp_def)

theorem navigateTo_early_redirect_witness:
  "on_client client_env
   \<and> \<not> options_external None
   \<and> \<not> hasProtocol client_env (target_path client_env (normalize_target (Some (LocString ''/login''))))
   \<and> flag_set (processingMiddleware (nuxtApp in_middleware_world))
   \<and> options_open None = None
   \<and> navigateTo client_env (Some (LocString ''/login'')) None in_middleware_world =
       (Inr (ReturnedLocation (LocString ''/login'')), in_middleware_world)
   \<and> navigateTo client_env None None (sample_world\<lparr>nuxt_available := False\<rparr>) =
       (Inr (ReturnedLocation (LocString ''/'')), sample_world\<lparr>nuxt_available := False\<rparr>)"
  using navigateTo_early_redirect [of client_env None "Some (LocString ''/login'')" in_middleware_world]
    navigateTo_early_redirect [of client_env None None "sample_world\<lparr>nuxt_available := False\<rparr>"]
  by (simp add: client_env_def on_client_def sample_hasProtocol_def sample_protocol_def
      in_middleware_world_def set_processing_def)

text \<open>Against claim C8 as stated: on the server, with an event of the render available, a
  target with a protocol and no \<^verbatim>\<open>external: true\<close> throws; no hook is called and no
  redirect is sent.\<close>

theorem navigateTo_server_external_counterexample:
  "on_server server_env
   \<and> nuxt_available ssr_world
   \<and> ssr_event_of (nuxtApp ssr_world) = Some 7
   \<and> navigateTo server_env (Some (LocString ''https://example.com'')) None ssr_world =
       (Inl external_not_allowed, ssr_world)
   \<and> effects ssr_world = []"
  by (simp add: server_env_def client_env_def on_server_def ssr_world_def sample_world_def
      sample_app_def ssr_event_of_def external_check_def navigateTo_def Let_def
      sample_hasProtocol_def sample_protocol_def)

text \<open>Claim C8, amended. On the server, for every call of \<^verbatim>\<open>navigateTo\<close> with an event of
  the render available that passes the checks of an external target (the target is
  internal, or \<^verbatim>\<open>external: true\<close> is given and the protocol is not a script protocol):
  the hook \<^verbatim>\<open>app:redirected\<close> is called and awaited first. When the hook is fulfilled,
  only then is the redirect sent, in the state the hook left and for the event of the
  render in that state, to the resolved internal path joined with the configured base URL
  (to the external path as it is for an external target), with the status code
  \<^verbatim>\<open>options.redirectCode\<close>, or 302 when none is given or the one given is 0. When the hook
  is rejected, no redirect is sent and the returned promise is rejected with the hook's
  error.\<close>

theorem navigateTo_server_redirect:
  assumes "on_server env"
    and "nuxt_available w"
    and "ssr_event_of (nuxtApp w) = Some event"
    and "target = normalize_target to"
    and "toPath = target_path env target"
    and "isExternal = (options_external options \<or> hasProtocol env toPath)"
    and "external_check env isExternal options toPath = None"
    and "useRouter w = Inr rt"
    and "callHook env ''app:redirected'' (w\<lparr>effects := effects w @ [CallHook ''app:redirected'']\<rparr>)
           = (outcome, w1)"
  shows "(\<forall>event1. outcome = Inr () \<and> ssr_event_of (nuxtApp w1) = Some event1 \<longrightarrow>
            navigateTo env to options w =
              (Inr (RedirectPromise Fulfilled),
               w1\<lparr>effects := effects w1 @
                    [SendRedirect (Some event1)
                       (if isExternal then toPath
                        else joinURL env (baseURL env)
                               (or_default (resolve_fullPath env rt target) ''/''))
                       (case options of
                          None \<Rightarrow> 302
                        | Some opts \<Rightarrow>
                            (case opt_redirectCode opts of
                               None \<Rightarrow> 302
                             | Some c \<Rightarrow> if c = 0 then 302 else c))]\<rparr>))
       \<and> (\<forall>e. outcome = Inl e \<longrightarrow>
            navigateTo env to options w = (Inr (RedirectPromise (Rejected e)), w1))"
proof -
  have "\<not> open_path_taken env options"
    using assms(1) by (simp add: on_server_def open_path_taken_def)
  moreover have "redirect_code options =
      (case options of None \<Rightarrow> 302
       | Some opts \<Rightarrow> (case opt_redirectCode opts of None \<Rightarrow> 302 | Some c \<Rightarrow> if c = 0 then 302 else c))"
    by (cases options) simp_all
  ultimately show ?thesis
    using assms
    by (auto simp add: navigateTo_past_open on_server_def server_redirect_def useNuxtApp_def
        send_after_hook_def ssr_event_of_def log_def Let_def split: option.splits)
qed

theorem navigateTo_server_redirect_witness:
  "on_server server_env
   \<and> on_server failing_hook_env
   \<and> nuxt_available ssr_world
   \<and> ssr_event_of (nuxtApp ssr_world) = Some 7
   \<and> useRouter ssr_world = Inr 1
   \<and> navigateTo server_env (Some (LocString ''/login'')) (Some redirect_options) ssr_world =
       (Inr (RedirectPromise Fulfilled),
        ssr_world\<lparr>effects :=
          [CallHook ''app:redirected'', HookHandler ''app:redirected'',
           SendRedirect (Some 7) ''/app/login'' 301]\<rparr>)
   \<and> navigateTo server_env (Some (LocObject empty_location)) None ssr_world =
       (Inr (RedirectPromise Fulfilled),
        ssr_world\<lparr>effects :=
          [CallHook ''app:redirected'', HookHandler ''app:redirected'',
           SendRedirect (Some 7) ''/app/'' 302]\<rparr>)
   \<and> navigateTo server_env (Some (LocString ''https://example.com'')) (Some external_options)
         ssr_world =
       (Inr (RedirectPromise Fulfilled),
        ssr_world\<lparr>effects :=
          [CallHook ''app:redirected'', HookHandler ''app:redirected'',
           SendRedirect (Some 7) ''https://example.com'' 302]\<rparr>)
   \<and> navigateTo failing_hook_env (Some (LocString ''/login'')) (Some redirect_options) ssr_world =
       (Inr (RedirectPromise (Rejected (Error ''handler failed''))),
        ssr_world\<lparr>effects := [CallHook ''app:redirected'', HookHandler ''app:redirected'']\<rparr>)
   \<and> navigateTo moving_hook_env (Some (LocString ''/login'')) None ssr_world =
       (Inr (RedirectPromise Fulfilled),
        ssr_world\<lparr>nuxtApp := sample_app\<lparr>ssrContext := Some \<lparr>ssr_event = Some 9\<rparr>\<rparr>,
          effects := [CallHook ''app:redirected'', SendRedirect (Some 9) ''/app/login'' 302]\<rparr>)"
proof -
  let ?hooked = "ssr_world\<lparr>effects := [CallHook ''app:redirected'', HookHandler ''app:redirected'']\<rparr>"
  have server: "on_server server_env" "on_server failing_hook_env"
    by (simp_all add: on_server_def server_env_def failing_hook_env_def client_env_def)
  have state: "nuxt_available ssr_world" "ssr_event_of (nuxtApp ssr_world) = Some 7"
    "useRouter ssr_world = Inr 1" "effects ssr_world = []"
    "ssr_event_of (nuxtApp ?hooked) = Some 7" "effects ?hooked =
       [CallHook ''app:redirected'', HookHandler ''app:redirected'']"
    by (simp_all add: ssr_world_def sample_world_def sample_app_def ssr_event_of_def
        useRouter_def useNuxtApp_def)
  have fulfilled: "callHook server_env ''app:redirected''
      (ssr_world\<lparr>effects := effects ssr_world @ [CallHook ''app:redirected'']\<rparr>) = (Inr (), ?hooked)"
    by (simp add: server_env_def client_env_def sample_callHook_def log_def state(4))
  have rejected: "callHook failing_hook_env ''app:redirected''
      (ssr_world\<lparr>effects := effects ssr_world @ [CallHook ''app:redirected'']\<rparr>) =
        (Inl (Error ''handler failed''), ?hooked)"
    by (simp add: failing_hook_env_def failing_callHook_def log_def state(4))
  have internal: "\<not> hasProtocol server_env ''/login''" "\<not> hasProtocol failing_hook_env ''/login''"
    "\<not> hasProtocol server_env ''/''" "hasProtocol server_env ''https://example.com''"
    by (simp_all add: server_env_def failing_hook_env_def client_env_def sample_hasProtocol_def
        sample_protocol_def)
  have checks: "external_check server_env False (Some redirect_options) ''/login'' = None"
    "external_check failing_hook_env False (Some redirect_options) ''/login'' = None"
    "external_check server_env False None ''/'' = None"
    "external_check server_env True (Some external_options) ''https://example.com'' = None"
    by (simp_all add: external_check_def external_options_def script_options_def
        server_env_def client_env_def sample_protocol_def sample_isScriptProtocol_def
        toLowerCase_def lower_char_def)
  have path: "target_path server_env (LocObject empty_location) = ''/''"
    by (simp add: empty_location_def server_env_def client_env_def sample_withQuery_def)
  have 1: "navigateTo server_env (Some (LocString ''/login'')) (Some redirect_options) ssr_world =
       (Inr (RedirectPromise Fulfilled),
        ssr_world\<lparr>effects :=
          [CallHook ''app:redirected'', HookHandler ''app:redirected'',
           SendRedirect (Some 7) ''/app/login'' 301]\<rparr>)"
    using navigateTo_server_redirect [of server_env ssr_world 7 "LocString ''/login''"
        "Some (LocString ''/login'')" "''/login''" False "Some redirect_options" 1 "Inr ()" ?hooked]
      server state fulfilled internal checks
    by (simp add: redirect_options_def server_env_def client_env_def sample_joinURL_def)
  have 2: "navigateTo server_env (Some (LocObject empty_location)) None ssr_world =
       (Inr (RedirectPromise Fulfilled),
        ssr_world\<lparr>effects :=
          [CallHook ''app:redirected'', HookHandler ''app:redirected'',
           SendRedirect (Some 7) ''/app/'' 302]\<rparr>)"
    using navigateTo_server_redirect [of server_env ssr_world 7 "LocObject empty_location"
        "Some (LocObject empty_location)" "''/''" False None 1 "Inr ()" ?hooked]
      server state fulfilled internal checks path
    by (simp add: empty_location_def server_env_def client_env_def sample_joinURL_def)
  have 3: "navigateTo server_env (Some (LocString ''https://example.com'')) (Some external_options)
         ssr_world =
       (Inr (RedirectPromise Fulfilled),
        ssr_world\<lparr>effects :=
          [CallHook ''app:redirected'', HookHandler ''app:redirected'',
           SendRedirect (Some 7) ''https://example.com'' 302]\<rparr>)"
    using navigateTo_server_redirect [of server_env ssr_world 7 "LocString ''https://example.com''"
        "Some (LocString ''https://example.com'')" "''https://example.com''" True
        "Some external_options" 1 "Inr ()" ?hooked]
      server state fulfilled internal checks
    by (simp add: external_options_def script_options_def)
  have 4: "navigateTo failing_hook_env (Some (LocString ''/login'')) (Some redirect_options) ssr_world =
       (Inr (RedirectPromise (Rejected (Error ''handler failed''))), ?hooked)"
    using navigateTo_server_redirect [of failing_hook_env ssr_world 7 "LocString ''/login''"
        "Some (LocString ''/login'')" "''/login''" False "Some redirect_options" 1
        "Inl (Error ''handler failed'')" ?hooked]
      server state rejected internal checks
    by (simp add: redirect_options_def)
  let ?moved = "ssr_world\<lparr>nuxtApp := sample_app\<lparr>ssrContext := Some \<lparr>ssr_event = Some 9\<rparr>\<rparr>,
      effects := [CallHook ''app:redirected'']\<rparr>"
  have moving: "on_server moving_hook_env" "\<not> hasProtocol moving_hook_env ''/login''"
    "external_check moving_hook_env False None ''/login'' = None"
    "callHook moving_hook_env ''app:redirected''
       (ssr_world\<lparr>effects := effects ssr_world @ [CallHook ''app:redirected'']\<rparr>) = (Inr (), ?moved)"
    "ssr_event_of (nuxtApp ?moved) = Some 9"
    by (simp_all add: on_server_def moving_hook_env_def server_env_def client_env_def
        sample_hasProtocol_def sample_protocol_def external_check_def moving_callHook_def
        ssr_world_def sample_world_def sample_app_def ssr_event_of_def)
  have 5: "navigateTo moving_hook_env (Some (LocString ''/login'')) None ssr_world =
       (Inr (RedirectPromise Fulfilled),
        ssr_world\<lparr>nuxtApp := sample_app\<lparr>ssrContext := Some \<lparr>ssr_event = Some 9\<rparr>\<rparr>,
          effects := [CallHook ''app:redirected'', SendRedirect (Some 9) ''/app/login'' 302]\<rparr>)"
    using navigateTo_server_redirect [of moving_hook_env ssr_world 7 "LocString ''/login''"
        "Some (LocString ''/login'')" "''/login''" False None 1 "Inr ()" ?moved]
      state moving
    by (simp add: moving_hook_env_def server_env_def client_env_def sample_joinURL_def)
  from server state(1-3) 1 2 3 4 5 show ?thesis by simp
qed



subsection \<open>Aborting a navigation\<close>




subsection \<open>Resolving the router and the route\<close>

text \<open>Claim C9. Inside an active component instance, \<^verbatim>\<open>useRouter\<close> and \<^verbatim>\<open>useRoute\<close> return
  what the composables of the router return. Otherwise, with the application instance
  available, \<^verbatim>\<open>useRouter\<close> returns the legacy context's router, and \<^verbatim>\<open>useRoute\<close> returns
  the reactive mirror of the legacy route: a first access (no mirror yet) creates the
  mirror from the legacy route, stores it and registers the hook that updates it; an
  access with a mirror stored returns that same object and changes nothing; so a second
  access returns what the first returned and changes nothing.\<close>

theorem useRouter_useRoute_resolution:
  "(current_instance w = Some vm \<longrightarrow>
      useRouter w = Inr (vue_router vm)
      \<and> useRoute w = (Inr (ComposableRoute (vue_route vm)), w))
   \<and> (current_instance w = None \<and> nuxt_available w \<longrightarrow>
      useRouter w = Inr (nuxt2_router (nuxtApp w))
      \<and> (mirrored_route (nuxtApp w) = None \<longrightarrow>
           useRoute w =
             (Inr (MirroredRoute (length (reactive_store w))),
              w\<lparr>reactive_store := reactive_store w @ [nuxt2_route (nuxtApp w)],
                nuxtApp := (nuxtApp w)\<lparr>mirrored_route := Some (length (reactive_store w))\<rparr>,
                effects := effects w @
                  [RouterAfterEach (nuxt2_router (nuxtApp w)) (length (reactive_store w))]\<rparr>))
      \<and> (\<forall>r. mirrored_route (nuxtApp w) = Some r \<longrightarrow> useRoute w = (Inr (MirroredRoute r), w))
      \<and> useRoute (snd (useRoute w)) = (fst (useRoute w), snd (useRoute w)))"
  by (auto simp add: useRouter_def useRoute_def useNuxtApp_def Let_def log_def
      split: option.splits)

theorem useRouter_useRoute_resolution_witness:
  "current_instance component_world = Some \<lparr>vue_router = 2, vue_route = ''/page''\<rparr>
   \<and> useRouter component_world = Inr 2
   \<and> useRoute component_world = (Inr (ComposableRoute ''/page''), component_world)
   \<and> current_instance sample_world = None
   \<and> nuxt_available sample_world
   \<and> mirrored_route (nuxtApp sample_world) = None
   \<and> useRouter sample_world = Inr 1
   \<and> useRoute sample_world = (Inr (MirroredRoute 0), mirrored_world)
   \<and> mirrored_route (nuxtApp mirrored_world) = Some 0
   \<and> useRoute mirrored_world = (Inr (MirroredRoute 0), mirrored_world)"
proof -
  have c: "current_instance component_world = Some \<lparr>vue_router = 2, vue_route = ''/page''\<rparr>"
    by (simp add: component_world_def)
  have s: "current_instance sample_world = None \<and> nuxt_available sample_world"
    by (simp add: sample_world_def)
  have n: "mirrored_route (nuxtApp sample_world) = None"
    by (simp add: sample_world_def sample_app_def)
  have m: "current_instance mirrored_world = None \<and> nuxt_available mirrored_world"
    by (simp add: mirrored_world_def sample_world_def)
  have r: "mirrored_route (nuxtApp mirrored_world) = Some 0"
    by (simp add: mirrored_world_def)
  have w: "sample_world\<lparr>reactive_store := reactive_store sample_world @ [nuxt2_route (nuxtApp sample_world)],
      nuxtApp := (nuxtApp sample_world)\<lparr>mirrored_route := Some (length (reactive_store sample_world))\<rparr>,
      effects := effects sample_world @
        [RouterAfterEach (nuxt2_router (nuxtApp sample_world)) (length (reactive_store sample_world))]\<rparr>
      = mirrored_world"
    by (simp add: mirrored_world_def sample_world_def sample_app_def)
  have l: "length (reactive_store sample_world) = 0 \<and> nuxt2_router (nuxtApp sample_world) = 1"
    by (simp add: sample_world_def sample_app_def)
  from useRouter_useRoute_resolution [of component_world "\<lparr>vue_router = 2, vue_route = ''/page''\<rparr>"] c
  have 1: "useRouter component_world = Inr 2
     \<and> useRoute component_world = (Inr (ComposableRoute ''/page''), component_world)"
    by simp
  from useRouter_useRoute_resolution [of sample_world] s n w l
  have 2: "useRouter sample_world = Inr 1
     \<and> useRoute sample_world = (Inr (MirroredRoute 0), mirrored_world)"
    by simp
  from useRouter_useRoute_resolution [of mirrored_world] m r
  have 3: "useRoute mirrored_world = (Inr (MirroredRoute 0), mirrored_world)"
    by simp
  from c s n r 1 2 3 show ?thesis by simp
qed

end
